theory Spec2Isabelle
  imports Main
begin

section \<open>Data model\<close>

text \<open>
  The repository holds two signalling servers. The room server (the file whose
  name is unknown, \<^verbatim>\<open>part_000\<close>) keeps two module-level maps, \<^verbatim>\<open>rooms\<close> and
  \<^verbatim>\<open>clientToRoom\<close>; the peer server (\<^verbatim>\<open>src/index.ts\<close>, compiled to
  \<^verbatim>\<open>dist/index.js\<close>) keeps one set, \<^verbatim>\<open>peers\<close>. Both are embedded here.

  A \<^verbatim>\<open>WebSocket\<close> object is an opaque handle compared by identity: a natural
  number. Its \<^verbatim>\<open>readyState\<close> belongs to the transport, so every handler that
  reads it takes the current readiness of all sockets as an argument.
\<close>

type_synonym conn = nat

datatype readyState = CONNECTING | OPEN | CLOSING | CLOSED

text \<open>
  The value of the \<^verbatim>\<open>type\<close> property of a decoded payload: the property is
  absent, or it holds a JSON value that is not a string, or it holds a string.
\<close>

datatype tfield = Missing | NonString | Str string

text \<open>
  A decoded payload, as far as the handlers read it: \<^verbatim>\<open>type\<close>, \<^verbatim>\<open>roomId\<close>
  (declared \<^verbatim>\<open>roomId?: string\<close>) and the remaining properties (\<^verbatim>\<open>sdp\<close>,
  \<^verbatim>\<open>candidate\<close>, ...), which the servers never read: they are kept as
  name/text pairs. A JSON number, string, boolean or array has none of the two
  properties and is an envelope with \<open>Missing\<close> and \<open>None\<close>.
\<close>

record envelope =
  mtype :: tfield
  mroomId :: "string option"
  rest :: "(string \<times> string) list"

text \<open>
  The raw data of a \<^verbatim>\<open>message\<close> event: text that \<^verbatim>\<open>JSON.parse\<close> rejects, the
  JSON text \<^verbatim>\<open>null\<close> (the one decoded value whose property reads throw), or
  any other decoded value.
\<close>

datatype payload = Unparsable | JsonNull | Decoded envelope

text \<open>
  What \<^verbatim>\<open>ws.send\<close> is given: \<^verbatim>\<open>JSON.stringify({type: "error", message: m})\<close>
  or \<^verbatim>\<open>JSON.stringify(message)\<close>, the re-encoded inbound envelope. A handler's
  sends are the list of its \<^verbatim>\<open>send\<close> calls in order, each with its socket.
\<close>

datatype outmsg = ErrorEnvelope string | Forwarded envelope

type_synonym sends = "(conn \<times> outmsg) list"

datatype exn = TypeError

text \<open>
  A JavaScript \<^verbatim>\<open>Set\<close> of sockets iterates in insertion order and holds no
  element twice: a list, with \<^verbatim>\<open>add\<close> appending an absent element and
  \<^verbatim>\<open>delete\<close> removing the element.
\<close>

definition set_add :: "conn \<Rightarrow> conn list \<Rightarrow> conn list" where
  "set_add ws room = (if ws \<in> set room then room else room @ [ws])"

definition set_delete :: "conn \<Rightarrow> conn list \<Rightarrow> conn list" where
  "set_delete ws room = removeAll ws room"

text \<open>The truth value JavaScript gives a string: only the empty string is falsy.\<close>

definition truthy :: "string \<Rightarrow> bool" where
  "truthy s = (s \<noteq> [])"

section \<open>The room server\<close>

record directory =
  rooms :: "string \<rightharpoonup> conn list"
  clientToRoom :: "conn \<rightharpoonup> string"

definition init :: directory where
  "init = \<lparr>rooms = Map.empty, clientToRoom = Map.empty\<rparr>"

definition handleJoinRoom :: "conn \<Rightarrow> string \<Rightarrow> directory \<Rightarrow> directory" where
  "handleJoinRoom ws roomId d =
     (if clientToRoom d ws \<noteq> None then d
      else
        let room = (case rooms d roomId of None \<Rightarrow> [] | Some r \<Rightarrow> r)
        in d\<lparr>rooms := (rooms d)(roomId \<mapsto> set_add ws room),
             clientToRoom := (clientToRoom d)(ws \<mapsto> roomId)\<rparr>)"

definition must_join :: string where
  "must_join = ''You must join a room before sending messages.''"

definition broadcastToRoom ::
    "(conn \<Rightarrow> readyState) \<Rightarrow> conn \<Rightarrow> envelope \<Rightarrow> directory \<Rightarrow> sends" where
  "broadcastToRoom ready senderWs message d =
     (case clientToRoom d senderWs of
        None \<Rightarrow> [(senderWs, ErrorEnvelope must_join)]
      | Some roomId \<Rightarrow>
          if \<not> truthy roomId then [(senderWs, ErrorEnvelope must_join)]
          else
            (case rooms d roomId of
               None \<Rightarrow> []
             | Some room \<Rightarrow>
                 map (\<lambda>clientWs. (clientWs, Forwarded message))
                   (filter (\<lambda>clientWs. clientWs \<noteq> senderWs \<and> ready clientWs = OPEN) room)))"

definition handleDisconnect :: "conn \<Rightarrow> directory \<Rightarrow> directory" where
  "handleDisconnect ws d =
     (case clientToRoom d ws of
        None \<Rightarrow> d
      | Some roomId \<Rightarrow>
          if \<not> truthy roomId then d
          else
            let d1 = d\<lparr>clientToRoom := (clientToRoom d)(ws := None)\<rparr>
            in (case rooms d1 roomId of
                  None \<Rightarrow> d1
                | Some room \<Rightarrow>
                    let room' = set_delete ws room
                    in if length room' = 0
                       then d1\<lparr>rooms := (rooms d1)(roomId := None)\<rparr>
                       else d1\<lparr>rooms := (rooms d1)(roomId \<mapsto> room')\<rparr>))"

text \<open>
  The test \<^verbatim>\<open>message.type === "joinRoom" && message.roomId\<close> of the message
  handler: the room to join when it passes.
\<close>

definition join_request :: "envelope \<Rightarrow> string option" where
  "join_request message =
     (if mtype message = Str ''joinRoom''
      then (case mroomId message of
              None \<Rightarrow> None
            | Some roomId \<Rightarrow> if truthy roomId then Some roomId else None)
      else None)"

text \<open>
  The \<^verbatim>\<open>message\<close> callback of the room server. Reading \<^verbatim>\<open>message.type\<close> of
  \<^verbatim>\<open>null\<close> throws a \<^verbatim>\<open>TypeError\<close> outside the \<^verbatim>\<open>try\<close> block.
\<close>

definition on_message ::
    "(conn \<Rightarrow> readyState) \<Rightarrow> conn \<Rightarrow> payload \<Rightarrow> directory \<Rightarrow> exn + (directory \<times> sends)" where
  "on_message ready ws data d =
     (case data of
        Unparsable \<Rightarrow> Inr (d, [(ws, ErrorEnvelope ''Invalid JSON format.'')])
      | JsonNull \<Rightarrow> Inl TypeError
      | Decoded message \<Rightarrow>
          (case join_request message of
             Some roomId \<Rightarrow> Inr (handleJoinRoom ws roomId d, [])
           | None \<Rightarrow> Inr (d, broadcastToRoom ready ws message d)))"

datatype event = Message conn payload | Close conn | Error conn

definition step ::
    "(conn \<Rightarrow> readyState) \<Rightarrow> event \<Rightarrow> directory \<Rightarrow> exn + (directory \<times> sends)" where
  "step ready ev d =
     (case ev of
        Message ws data \<Rightarrow> on_message ready ws data d
      | Close ws \<Rightarrow> Inr (handleDisconnect ws d, [])
      | Error ws \<Rightarrow> Inr (handleDisconnect ws d, []))"

text \<open>
  The states the server can be in: the empty directory, and every state an event
  handler leaves behind when it returns. The readiness of the sockets may be
  anything at each event.
\<close>

inductive reachable :: "directory \<Rightarrow> bool" where
  reachable_init: "reachable init"
| reachable_step: "reachable d \<Longrightarrow> step ready ev d = Inr (d', out) \<Longrightarrow> reachable d'"

text \<open>
  The states reachable through the two mutating operations alone, called with any
  socket and any room id (also the empty one, which the message handler never
  passes).
\<close>

inductive dir_reach :: "directory \<Rightarrow> bool" where
  dir_init: "dir_reach init"
| dir_join: "dir_reach d \<Longrightarrow> dir_reach (handleJoinRoom ws roomId d)"
| dir_leave: "dir_reach d \<Longrightarrow> dir_reach (handleDisconnect ws d)"

definition members :: "directory \<Rightarrow> string \<Rightarrow> conn set" where
  "members d roomId = (case rooms d roomId of None \<Rightarrow> {} | Some room \<Rightarrow> set room)"

text \<open>
  The invariants of the directory: the forward and the reverse map agree, no room
  is empty, no member list holds a socket twice, and the falsy room id is neither
  a key of \<^verbatim>\<open>rooms\<close> nor a value of \<^verbatim>\<open>clientToRoom\<close>.
\<close>

definition consistent :: "directory \<Rightarrow> bool" where
  "consistent d =
     (\<forall>ws roomId. ws \<in> members d roomId \<longleftrightarrow> clientToRoom d ws = Some roomId)"

definition no_empty_room :: "directory \<Rightarrow> bool" where
  "no_empty_room d = (\<forall>roomId. rooms d roomId \<noteq> Some [])"

definition distinct_rooms :: "directory \<Rightarrow> bool" where
  "distinct_rooms d = (\<forall>roomId room. rooms d roomId = Some room \<longrightarrow> distinct room)"

definition truthy_rooms :: "directory \<Rightarrow> bool" where
  "truthy_rooms d = (rooms d [] = None \<and> (\<forall>ws. clientToRoom d ws \<noteq> Some []))"

section \<open>The peer server\<close>

definition on_connection :: "conn \<Rightarrow> conn list \<Rightarrow> conn list" where
  "on_connection ws peers = set_add ws peers"

definition broadcastToOthers ::
    "(conn \<Rightarrow> readyState) \<Rightarrow> conn \<Rightarrow> envelope \<Rightarrow> conn list \<Rightarrow> sends" where
  "broadcastToOthers ready sender message peers =
     map (\<lambda>peer. (peer, Forwarded message))
       (filter (\<lambda>peer. peer \<noteq> sender \<and> ready peer = OPEN) peers)"

definition peers_on_message ::
    "(conn \<Rightarrow> readyState) \<Rightarrow> conn \<Rightarrow> payload \<Rightarrow> conn list \<Rightarrow> exn + (conn list \<times> sends)" where
  "peers_on_message ready ws data peers =
     (case data of
        Unparsable \<Rightarrow> Inr (peers, [(ws, ErrorEnvelope ''Invalid JSON format'')])
      | JsonNull \<Rightarrow> Inl TypeError
      | Decoded message \<Rightarrow>
          (case mtype message of
             Str t \<Rightarrow>
               if t = ''createOffer'' \<or> t = ''createAnswer'' \<or> t = ''iceCandidate''
               then Inr (peers, broadcastToOthers ready ws message peers)
               else Inr (peers, [(ws, ErrorEnvelope (''Unknown message type: '' @ t))])
           | _ \<Rightarrow> Inr (peers, [(ws, ErrorEnvelope ''Missing or invalid 'type' field'')])))"

definition peers_on_close :: "conn \<Rightarrow> conn list \<Rightarrow> conn list" where
  "peers_on_close ws peers = set_delete ws peers"


section \<open>How the two operations change the maps\<close>

lemma join_assigned: "clientToRoom d ws = Some r \<Longrightarrow> handleJoinRoom ws roomId d = d"
  by (simp add: handleJoinRoom_def)

lemma members_join:
  "clientToRoom d ws = None \<Longrightarrow>
   members (handleJoinRoom ws roomId d) r =
     (if r = roomId then insert ws (members d roomId) else members d r)"
  by (auto simp: handleJoinRoom_def members_def set_add_def Let_def split: option.splits)

lemma clientToRoom_join:
  "clientToRoom d ws = None \<Longrightarrow>
   clientToRoom (handleJoinRoom ws roomId d) c =
     (if c = ws then Some roomId else clientToRoom d c)"
  by (simp add: handleJoinRoom_def Let_def)

lemma leave_unassigned: "clientToRoom d ws = None \<Longrightarrow> handleDisconnect ws d = d"
  by (simp add: handleDisconnect_def)

lemma leave_falsy:
  "clientToRoom d ws = Some r \<Longrightarrow> \<not> truthy r \<Longrightarrow> handleDisconnect ws d = d"
  by (simp add: handleDisconnect_def)

lemma removeAll_empty: "removeAll x xs = [] \<longleftrightarrow> set xs \<subseteq> {x}"
  by (induction xs) auto

lemma members_leave:
  "clientToRoom d ws = Some r \<Longrightarrow> truthy r \<Longrightarrow>
   members (handleDisconnect ws d) r' =
     (if r' = r then members d r - {ws} else members d r')"
  by (auto simp: handleDisconnect_def members_def set_delete_def Let_def removeAll_empty
        split: option.splits)

lemma clientToRoom_leave:
  "clientToRoom d ws = Some r \<Longrightarrow> truthy r \<Longrightarrow>
   clientToRoom (handleDisconnect ws d) c = (if c = ws then None else clientToRoom d c)"
  by (auto simp: handleDisconnect_def Let_def split: option.splits)

section \<open>Each invariant is kept by each operation\<close>

lemma consistent_init: "consistent init"
  by (simp add: consistent_def init_def members_def)

lemma consistent_join:
  assumes "consistent d"
  shows "consistent (handleJoinRoom ws roomId d)"
proof (cases "clientToRoom d ws")
  case (Some r)
  then show ?thesis using assms by (simp add: join_assigned)
next
  case None
  then show ?thesis
    using assms by (auto simp: consistent_def members_join clientToRoom_join)
qed

lemma consistent_leave:
  assumes "consistent d"
  shows "consistent (handleDisconnect ws d)"
proof (cases "clientToRoom d ws")
  case None
  then show ?thesis using assms by (simp add: leave_unassigned)
next
  case (Some r)
  show ?thesis
  proof (cases "truthy r")
    case False
    then show ?thesis using assms Some by (simp add: leave_falsy)
  next
    case True
    then show ?thesis
      using assms Some by (auto simp: consistent_def members_leave clientToRoom_leave)
  qed
qed

lemma no_empty_init: "no_empty_room init"
  by (simp add: no_empty_room_def init_def)

lemma no_empty_join: "no_empty_room d \<Longrightarrow> no_empty_room (handleJoinRoom ws roomId d)"
  by (auto simp: no_empty_room_def handleJoinRoom_def set_add_def Let_def
        split: option.splits)

lemma no_empty_leave: "no_empty_room d \<Longrightarrow> no_empty_room (handleDisconnect ws d)"
  by (auto simp: no_empty_room_def handleDisconnect_def set_delete_def Let_def
        split: option.splits)

lemma distinct_init: "distinct_rooms init"
  by (simp add: distinct_rooms_def init_def)

lemma distinct_join: "distinct_rooms d \<Longrightarrow> distinct_rooms (handleJoinRoom ws roomId d)"
  by (auto simp: distinct_rooms_def handleJoinRoom_def set_add_def Let_def
        split: option.splits)

lemma distinct_leave: "distinct_rooms d \<Longrightarrow> distinct_rooms (handleDisconnect ws d)"
  by (auto simp: distinct_rooms_def handleDisconnect_def set_delete_def Let_def
        distinct_removeAll split: option.splits)

lemma truthy_rooms_init: "truthy_rooms init"
  by (simp add: truthy_rooms_def init_def)

lemma truthy_rooms_join:
  "truthy_rooms d \<Longrightarrow> truthy roomId \<Longrightarrow> truthy_rooms (handleJoinRoom ws roomId d)"
  by (auto simp: truthy_rooms_def truthy_def handleJoinRoom_def Let_def)

lemma truthy_rooms_leave: "truthy_rooms d \<Longrightarrow> truthy_rooms (handleDisconnect ws d)"
  by (auto simp: truthy_rooms_def handleDisconnect_def Let_def split: option.splits)

section \<open>Reachable states\<close>

lemma dir_reach_consistent: "dir_reach d \<Longrightarrow> consistent d"
  by (induction rule: dir_reach.induct)
    (simp_all add: consistent_init consistent_join consistent_leave)

lemma dir_reach_no_empty: "dir_reach d \<Longrightarrow> no_empty_room d"
  by (induction rule: dir_reach.induct)
    (simp_all add: no_empty_init no_empty_join no_empty_leave)

lemma dir_reach_distinct: "dir_reach d \<Longrightarrow> distinct_rooms d"
  by (induction rule: dir_reach.induct)
    (simp_all add: distinct_init distinct_join distinct_leave)

text \<open>
  An event handler that returns leaves the directory as it was, or as one
  \<^verbatim>\<open>handleDisconnect\<close> or one \<^verbatim>\<open>handleJoinRoom\<close> with a truthy room id leaves it.
\<close>

lemma step_cases:
  assumes "step ready ev d = Inr (d', out)"
  shows "d' = d \<or> (\<exists>ws. d' = handleDisconnect ws d) \<or>
         (\<exists>ws roomId. truthy roomId \<and> d' = handleJoinRoom ws roomId d)"
  using assms
  by (auto simp: step_def on_message_def join_request_def
        split: event.splits payload.splits option.splits if_splits)

lemma reachable_dir_reach: "reachable d \<Longrightarrow> dir_reach d"
proof (induction rule: reachable.induct)
  case reachable_init
  show ?case by (rule dir_init)
next
  case (reachable_step d ready ev d' out)
  from step_cases[OF reachable_step.hyps(2)] reachable_step.IH show ?case
    by (auto intro: dir_join dir_leave)
qed

lemma reachable_truthy_rooms: "reachable d \<Longrightarrow> truthy_rooms d"
proof (induction rule: reachable.induct)
  case reachable_init
  show ?case by (rule truthy_rooms_init)
next
  case (reachable_step d ready ev d' out)
  from step_cases[OF reachable_step.hyps(2)] reachable_step.IH show ?case
    by (auto intro: truthy_rooms_join truthy_rooms_leave)
qed

lemma reachable_join:
  assumes "reachable d" and "truthy roomId"
  shows "reachable (handleJoinRoom ws roomId d)"
proof -
  let ?m = "\<lparr>mtype = Str ''joinRoom'', mroomId = Some roomId, rest = []\<rparr>"
  have "step (\<lambda>_. OPEN) (Message ws (Decoded ?m)) d = Inr (handleJoinRoom ws roomId d, [])"
    using assms(2) by (simp add: step_def on_message_def join_request_def)
  with assms(1) show ?thesis by (rule reachable_step)
qed

lemma reachable_leave:
  assumes "reachable d"
  shows "reachable (handleDisconnect ws d)"
proof -
  have "step (\<lambda>_. OPEN) (Close ws) d = Inr (handleDisconnect ws d, [])"
    by (simp add: step_def)
  with assms show ?thesis by (rule reachable_step)
qed

text \<open>
  The sends of \<^verbatim>\<open>broadcastToRoom\<close> for a sender with a room, in a reachable state:
  the room is there, and the loop visits its members.
\<close>

lemma broadcast_assigned:
  assumes "reachable d" and "clientToRoom d senderWs = Some roomId"
  shows "\<exists>room. rooms d roomId = Some room \<and> distinct room \<and> senderWs \<in> set room \<and>
           broadcastToRoom ready senderWs message d =
             map (\<lambda>clientWs. (clientWs, Forwarded message))
               (filter (\<lambda>clientWs. clientWs \<noteq> senderWs \<and> ready clientWs = OPEN) room)"
proof -
  from assms(1) have dr: "dir_reach d" by (rule reachable_dir_reach)
  from reachable_truthy_rooms[OF assms(1)] assms(2) have t: "truthy roomId"
    by (auto simp: truthy_rooms_def truthy_def)
  from dir_reach_consistent[OF dr] assms(2) have "senderWs \<in> members d roomId"
    by (simp add: consistent_def)
  then obtain room where room: "rooms d roomId = Some room" "senderWs \<in> set room"
    by (auto simp: members_def split: option.splits)
  from dir_reach_distinct[OF dr] room(1) have "distinct room"
    by (simp add: distinct_rooms_def)
  with room t assms(2) show ?thesis
    by (simp add: broadcastToRoom_def)
qed

text \<open>
  A state used in the examples below: sockets 1 and 2 have joined room \<^verbatim>\<open>r1\<close>, and
  every socket is open. Socket 1 then broadcasts.
\<close>

lemma reachable_two_in_r1:
  "reachable (handleJoinRoom 2 ''r1'' (handleJoinRoom 1 ''r1'' init))"
proof -
  have t: "truthy ''r1''" by (simp add: truthy_def)
  show ?thesis by (intro reachable_join reachable_init t)
qed

lemma clientToRoom_two_in_r1:
  "clientToRoom (handleJoinRoom 2 ''r1'' (handleJoinRoom 1 ''r1'' init)) 1 = Some ''r1''"
  by (simp add: handleJoinRoom_def init_def Let_def)

lemma broadcast_two_in_r1:
  "broadcastToRoom (\<lambda>_. OPEN) 1 message (handleJoinRoom 2 ''r1'' (handleJoinRoom 1 ''r1'' init))
     = [(2, Forwarded message)]"
  by (simp add: broadcastToRoom_def handleJoinRoom_def init_def Let_def set_add_def truthy_def)

text \<open>
  The sends of \<^verbatim>\<open>broadcastToRoom\<close> for a sender without a room, in any state, and the
  set of sends for a sender with a room, in a reachable state.
\<close>

lemma broadcast_unassigned:
  "clientToRoom d ws = None \<Longrightarrow>
   broadcastToRoom ready ws message d =
     [(ws, ErrorEnvelope ''You must join a room before sending messages.'')]"
  by (simp add: broadcastToRoom_def must_join_def)

lemma broadcast_assigned_set:
  assumes "reachable d" and "clientToRoom d ws = Some roomId"
  shows "set (broadcastToRoom ready ws message d) =
           (\<lambda>clientWs. (clientWs, Forwarded message)) `
             {clientWs \<in> members d roomId. clientWs \<noteq> ws \<and> ready clientWs = OPEN}"
proof -
  from broadcast_assigned[OF assms, of ready message] obtain room where
    room: "rooms d roomId = Some room" and
    b: "broadcastToRoom ready ws message d =
          map (\<lambda>clientWs. (clientWs, Forwarded message))
            (filter (\<lambda>clientWs. clientWs \<noteq> ws \<and> ready clientWs = OPEN) room)"
    by blast
  have m: "members d roomId = set room" using room by (simp add: members_def)
  show ?thesis unfolding b m by auto
qed

lemma others_two_in_r1:
  "{clientWs \<in> members (handleJoinRoom 2 ''r1'' (handleJoinRoom 1 ''r1'' init)) ''r1''.
      clientWs \<noteq> 1 \<and> (\<lambda>_. OPEN) clientWs = OPEN} = {2}"
  by (auto simp: members_def handleJoinRoom_def init_def Let_def set_add_def)

section \<open>Membership\<close>

text \<open>
  C1. In every state reachable through \<^verbatim>\<open>handleJoinRoom\<close> and \<^verbatim>\<open>handleDisconnect\<close>
  (with any arguments), a socket is in the member set of a room exactly when
  \<^verbatim>\<open>clientToRoom\<close> maps it to that room id, so it is a member of at most one
  room; and the state after a further join, a further disconnect or any event
  handler that returns (a broadcast among them) agrees in the same way.
\<close>

theorem membership_uniqueness:
  assumes "dir_reach d"
  shows "(\<forall>ws roomId. ws \<in> members d roomId \<longleftrightarrow> clientToRoom d ws = Some roomId) \<and>
         (\<forall>ws r r'. ws \<in> members d r \<and> ws \<in> members d r' \<longrightarrow> r = r') \<and>
         consistent (handleJoinRoom ws roomId d) \<and>
         consistent (handleDisconnect ws d) \<and>
         (\<forall>ready ev d' out. step ready ev d = Inr (d', out) \<longrightarrow> consistent d')"
proof -
  from assms have c: "consistent d" by (rule dir_reach_consistent)
  have "\<forall>ws r r'. ws \<in> members d r \<and> ws \<in> members d r' \<longrightarrow> r = r'"
    using c by (auto simp: consistent_def)
  moreover have "\<forall>ready ev d' out. step ready ev d = Inr (d', out) \<longrightarrow> consistent d'"
  proof (intro allI impI)
    fix ready ev d' out
    assume "step ready ev d = Inr (d', out)"
    from step_cases[OF this] c show "consistent d'"
      by (auto intro: consistent_join consistent_leave)
  qed
  ultimately show ?thesis
    using c consistent_join[OF c] consistent_leave[OF c] by (simp add: consistent_def)
qed

theorem membership_uniqueness_witness:
  "dir_reach (handleJoinRoom 2 ''r2'' (handleJoinRoom 1 ''r1'' init)) \<and>
   clientToRoom (handleJoinRoom 2 ''r2'' (handleJoinRoom 1 ''r1'' init)) 1 = Some ''r1'' \<and>
   1 \<in> members (handleJoinRoom 2 ''r2'' (handleJoinRoom 1 ''r1'' init)) ''r1'' \<and>
   1 \<notin> members (handleJoinRoom 2 ''r2'' (handleJoinRoom 1 ''r1'' init)) ''r2''"
proof -
  let ?d = "handleJoinRoom 2 ''r2'' (handleJoinRoom 1 ''r1'' init)"
  have r: "dir_reach ?d" by (intro dir_join dir_init)
  have c: "clientToRoom ?d 1 = Some ''r1''"
    by (simp add: handleJoinRoom_def init_def Let_def)
  from membership_uniqueness[OF r, of 1 "''r1''"]
  have "\<forall>ws roomId. ws \<in> members ?d roomId \<longleftrightarrow> clientToRoom ?d ws = Some roomId"
    by blast
  with c have "1 \<in> members ?d ''r1''" and "1 \<notin> members ?d ''r2''" by simp_all
  with r c show ?thesis by simp
qed

text \<open>
  C10. In every state reachable through \<^verbatim>\<open>handleJoinRoom\<close> and
  \<^verbatim>\<open>handleDisconnect\<close>, the room id that \<^verbatim>\<open>clientToRoom\<close> gives for a socket is a
  key of \<^verbatim>\<open>rooms\<close>, and the socket is in that room: the branch of
  \<^verbatim>\<open>broadcastToRoom\<close> for a room that is not found is never taken.
\<close>

theorem room_of_sender_exists:
  assumes "dir_reach d" and "clientToRoom d senderWs = Some roomId"
  shows "\<exists>room. rooms d roomId = Some room \<and> senderWs \<in> set room"
proof -
  from dir_reach_consistent[OF assms(1)] assms(2) have "senderWs \<in> members d roomId"
    by (simp add: consistent_def)
  then show ?thesis by (auto simp: members_def split: option.splits)
qed

theorem room_of_sender_exists_witness:
  "dir_reach (handleDisconnect 2 (handleJoinRoom 2 ''r1'' (handleJoinRoom 1 ''r1'' init))) \<and>
   clientToRoom (handleDisconnect 2 (handleJoinRoom 2 ''r1'' (handleJoinRoom 1 ''r1'' init))) 1
     = Some ''r1'' \<and>
   (\<exists>room. rooms (handleDisconnect 2 (handleJoinRoom 2 ''r1'' (handleJoinRoom 1 ''r1'' init)))
             ''r1'' = Some room \<and> 1 \<in> set room)"
proof -
  let ?d = "handleDisconnect 2 (handleJoinRoom 2 ''r1'' (handleJoinRoom 1 ''r1'' init))"
  have r: "dir_reach ?d" by (intro dir_leave dir_join dir_init)
  have c: "clientToRoom ?d 1 = Some ''r1''"
    by (simp add: handleDisconnect_def handleJoinRoom_def init_def Let_def truthy_def
          set_add_def set_delete_def)
  from r c room_of_sender_exists[OF r c] show ?thesis by simp
qed

section \<open>Room cleanup\<close>

text \<open>
  C2. In every reachable state no room of the directory has an empty member list;
  and when a socket is the only member of a room, the directory after that
  socket's cleanup (\<^verbatim>\<open>handleDisconnect\<close>, run on close and on error alike) has no
  entry for the room.
\<close>

theorem room_cleanup:
  assumes "reachable d"
  shows "(\<forall>roomId. rooms d roomId \<noteq> Some []) \<and>
         (\<forall>ws roomId. members d roomId = {ws} \<longrightarrow>
            rooms (handleDisconnect ws d) roomId = None) \<and>
         (\<forall>ws roomId. rooms (handleDisconnect ws d) roomId \<noteq> Some [])"
proof -
  from assms have dr: "dir_reach d" by (rule reachable_dir_reach)
  have a: "\<forall>roomId. rooms d roomId \<noteq> Some []"
    using dir_reach_no_empty[OF dr] by (simp add: no_empty_room_def)
  have b: "\<forall>ws roomId. members d roomId = {ws} \<longrightarrow>
             rooms (handleDisconnect ws d) roomId = None"
  proof (intro allI impI)
    fix ws roomId
    assume m: "members d roomId = {ws}"
    then obtain room where room: "rooms d roomId = Some room" "set room = {ws}"
      by (auto simp: members_def split: option.splits)
    from m have "ws \<in> members d roomId" by simp
    with dir_reach_consistent[OF dr] have c: "clientToRoom d ws = Some roomId"
      by (simp add: consistent_def)
    from reachable_truthy_rooms[OF assms] room(1) have t: "truthy roomId"
      by (auto simp: truthy_rooms_def truthy_def)
    from room(2) have "removeAll ws room = []" by (simp add: removeAll_empty)
    with c t room(1) show "rooms (handleDisconnect ws d) roomId = None"
      by (simp add: handleDisconnect_def set_delete_def)
  qed
  have "\<forall>ws roomId. rooms (handleDisconnect ws d) roomId \<noteq> Some []"
    using no_empty_leave[OF dir_reach_no_empty[OF dr]] by (simp add: no_empty_room_def)
  with a b show ?thesis by simp
qed

theorem room_cleanup_witness:
  "reachable (handleDisconnect 1 (handleJoinRoom 2 ''r2'' (handleJoinRoom 1 ''r2'' init))) \<and>
   members (handleDisconnect 1 (handleJoinRoom 2 ''r2'' (handleJoinRoom 1 ''r2'' init))) ''r2''
     = {2} \<and>
   rooms (handleDisconnect 2
      (handleDisconnect 1 (handleJoinRoom 2 ''r2'' (handleJoinRoom 1 ''r2'' init)))) ''r2''
     = None"
proof -
  let ?d = "handleDisconnect 1 (handleJoinRoom 2 ''r2'' (handleJoinRoom 1 ''r2'' init))"
  have t: "truthy ''r2''" by (simp add: truthy_def)
  have r: "reachable ?d"
    by (intro reachable_leave reachable_join reachable_init t)
  have m: "members ?d ''r2'' = {2}"
    by (simp add: members_def handleDisconnect_def handleJoinRoom_def init_def Let_def
          truthy_def set_add_def set_delete_def)
  from room_cleanup[OF r] m have "rooms (handleDisconnect 2 ?d) ''r2'' = None" by blast
  with r m show ?thesis by simp
qed

section \<open>Broadcast\<close>

text \<open>
  C3, as the code has it. For a socket that \<^verbatim>\<open>clientToRoom\<close> does not map, and a
  decoded message that is not a join (its type is not \<^verbatim>\<open>joinRoom\<close>, or its room id
  is absent or empty), the message handler sends one error envelope, with the text
  "You must join a room before sending messages.", to that socket, sends nothing
  else, and returns the directory as it was. Text that is not JSON gets one error
  envelope too, to that socket alone and with the directory as it was, but with the
  text "Invalid JSON format.".
\<close>

theorem join_before_send:
  assumes "clientToRoom d ws = None" and "join_request message = None"
  shows "on_message ready ws (Decoded message) d =
           Inr (d, [(ws, ErrorEnvelope ''You must join a room before sending messages.'')]) \<and>
         broadcastToRoom ready ws message d =
           [(ws, ErrorEnvelope ''You must join a room before sending messages.'')] \<and>
         on_message ready ws Unparsable d =
           Inr (d, [(ws, ErrorEnvelope ''Invalid JSON format.'')])"
  using assms by (simp add: on_message_def broadcastToRoom_def must_join_def)

theorem join_before_send_witness:
  "clientToRoom init 7 = None \<and>
   join_request \<lparr>mtype = Str ''iceCandidate'', mroomId = None, rest = [(''candidate'', ''{}'')]\<rparr>
     = None \<and>
   on_message (\<lambda>_. OPEN) 7
     (Decoded \<lparr>mtype = Str ''iceCandidate'', mroomId = None, rest = [(''candidate'', ''{}'')]\<rparr>)
     init =
     Inr (init, [(7, ErrorEnvelope ''You must join a room before sending messages.'')])"
proof -
  let ?m = "\<lparr>mtype = Str ''iceCandidate'', mroomId = None, rest = [(''candidate'', ''{}'')]\<rparr>"
  have c: "clientToRoom init 7 = None" by (simp add: init_def)
  have j: "join_request ?m = None" by (simp add: join_request_def)
  from c j join_before_send[OF c j, of "\<lambda>_. OPEN"] show ?thesis by simp
qed

text \<open>
  The claim as stated fails for inbound data that is not a decoded message: from a
  socket without a room, text that is not JSON is answered with "Invalid JSON
  format." and not with the join-before-send text, and the JSON text \<^verbatim>\<open>null\<close>
  makes the handler throw, so nothing is sent at all.
\<close>

theorem join_before_send_counterexample:
  "clientToRoom init 7 = None \<and>
   on_message (\<lambda>_. OPEN) 7 Unparsable init =
     Inr (init, [(7, ErrorEnvelope ''Invalid JSON format.'')]) \<and>
   on_message (\<lambda>_. OPEN) 7 Unparsable init \<noteq>
     Inr (init, [(7, ErrorEnvelope ''You must join a room before sending messages.'')]) \<and>
   on_message (\<lambda>_. OPEN) 7 JsonNull init = Inl TypeError"
  by (simp add: on_message_def init_def)

text \<open>
  C4. In a reachable state, for a sender that \<^verbatim>\<open>clientToRoom\<close> maps to a room,
  \<^verbatim>\<open>broadcastToRoom\<close> sends the re-encoded message to the members of that room that
  are not the sender and whose \<^verbatim>\<open>readyState\<close> is \<^verbatim>\<open>OPEN\<close>, once each, and to nobody
  else; the sender gets nothing.
\<close>

theorem broadcast_fanout:
  assumes "reachable d" and "clientToRoom d senderWs = Some roomId"
  shows "set (broadcastToRoom ready senderWs message d) =
           (\<lambda>clientWs. (clientWs, Forwarded message)) `
             {clientWs \<in> members d roomId. clientWs \<noteq> senderWs \<and> ready clientWs = OPEN} \<and>
         distinct (map fst (broadcastToRoom ready senderWs message d)) \<and>
         senderWs \<notin> fst ` set (broadcastToRoom ready senderWs message d)"
proof -
  from broadcast_assigned[OF assms, of ready message] obtain room where
    room: "rooms d roomId = Some room" "distinct room" and
    b: "broadcastToRoom ready senderWs message d =
          map (\<lambda>clientWs. (clientWs, Forwarded message))
            (filter (\<lambda>clientWs. clientWs \<noteq> senderWs \<and> ready clientWs = OPEN) room)"
    by blast
  have m: "members d roomId = set room" using room(1) by (simp add: members_def)
  have "set (broadcastToRoom ready senderWs message d) =
          (\<lambda>clientWs. (clientWs, Forwarded message)) `
            {clientWs \<in> members d roomId. clientWs \<noteq> senderWs \<and> ready clientWs = OPEN}"
    unfolding b m by auto
  moreover have "distinct (map fst (broadcastToRoom ready senderWs message d))"
    unfolding b using room(2) by (simp add: comp_def)
  moreover have "senderWs \<notin> fst ` set (broadcastToRoom ready senderWs message d)"
    unfolding b by auto
  ultimately show ?thesis by simp
qed

theorem broadcast_fanout_witness:
  "reachable (handleJoinRoom 3 ''r1'' (handleJoinRoom 2 ''r1'' (handleJoinRoom 1 ''r1'' init))) \<and>
   clientToRoom (handleJoinRoom 3 ''r1'' (handleJoinRoom 2 ''r1'' (handleJoinRoom 1 ''r1'' init))) 1
     = Some ''r1'' \<and>
   set (broadcastToRoom (\<lambda>c. if c = 3 then CLOSED else OPEN) 1
          \<lparr>mtype = Str ''createOffer'', mroomId = None, rest = [(''sdp'', ''abc'')]\<rparr>
          (handleJoinRoom 3 ''r1'' (handleJoinRoom 2 ''r1'' (handleJoinRoom 1 ''r1'' init)))) =
     {(2, Forwarded \<lparr>mtype = Str ''createOffer'', mroomId = None, rest = [(''sdp'', ''abc'')]\<rparr>)}"
proof -
  let ?d = "handleJoinRoom 3 ''r1'' (handleJoinRoom 2 ''r1'' (handleJoinRoom 1 ''r1'' init))"
  let ?m = "\<lparr>mtype = Str ''createOffer'', mroomId = None, rest = [(''sdp'', ''abc'')]\<rparr>"
  let ?ready = "\<lambda>c::conn. if c = 3 then CLOSED else OPEN"
  have t: "truthy ''r1''" by (simp add: truthy_def)
  have r: "reachable ?d" by (intro reachable_join reachable_init t)
  have c: "clientToRoom ?d 1 = Some ''r1''"
    by (simp add: handleJoinRoom_def init_def Let_def)
  have m: "members ?d ''r1'' = {1, 2, 3}"
    by (auto simp: members_def handleJoinRoom_def init_def Let_def set_add_def)
  have "{clientWs \<in> members ?d ''r1''. clientWs \<noteq> 1 \<and> ?ready clientWs = OPEN} = {2}"
    unfolding m by auto
  with broadcast_fanout[OF r c, of ?ready ?m]
  have "set (broadcastToRoom ?ready 1 ?m ?d) = {(2, Forwarded ?m)}" by simp
  with r c show ?thesis by simp
qed

section \<open>Joining\<close>

text \<open>
  C8. For a socket that \<^verbatim>\<open>clientToRoom\<close> already maps to a room, \<^verbatim>\<open>handleJoinRoom\<close>
  with any room id returns the directory as it was (both maps), and the message
  handler, given such a join, sends nothing.
\<close>

theorem duplicate_join_noop:
  assumes "clientToRoom d ws = Some r"
  shows "handleJoinRoom ws roomId d = d \<and>
         (join_request message = Some roomId \<longrightarrow>
            on_message ready ws (Decoded message) d = Inr (d, []))"
  using assms by (simp add: handleJoinRoom_def on_message_def)

theorem duplicate_join_noop_witness:
  "clientToRoom (handleJoinRoom 1 ''r1'' init) 1 = Some ''r1'' \<and>
   handleJoinRoom 1 ''r2'' (handleJoinRoom 1 ''r1'' init) = handleJoinRoom 1 ''r1'' init \<and>
   on_message (\<lambda>_. OPEN) 1
     (Decoded \<lparr>mtype = Str ''joinRoom'', mroomId = Some ''r2'', rest = []\<rparr>)
     (handleJoinRoom 1 ''r1'' init) = Inr (handleJoinRoom 1 ''r1'' init, [])"
proof -
  let ?d = "handleJoinRoom 1 ''r1'' init"
  let ?m = "\<lparr>mtype = Str ''joinRoom'', mroomId = Some ''r2'', rest = []\<rparr>"
  have c: "clientToRoom ?d 1 = Some ''r1''"
    by (simp add: handleJoinRoom_def init_def Let_def)
  have j: "join_request ?m = Some ''r2''"
    by (simp add: join_request_def truthy_def)
  from duplicate_join_noop[OF c, of "''r2''" ?m "\<lambda>_. OPEN"] j c show ?thesis by simp
qed

text \<open>
  C9. A message of type \<^verbatim>\<open>joinRoom\<close> whose room id is the empty string fails the
  join test: the handler leaves the directory as it was and its sends are those of
  \<^verbatim>\<open>broadcastToRoom\<close>. A sender without a room gets the join-before-send error;
  for a sender with a room, in a reachable state, the envelope is forwarded to the
  other open members of the room. In no reachable state is the empty string a key
  of \<^verbatim>\<open>rooms\<close> or a value of \<^verbatim>\<open>clientToRoom\<close>.
\<close>

theorem empty_room_id_not_a_join:
  "join_request \<lparr>mtype = Str ''joinRoom'', mroomId = Some [], rest = fs\<rparr> = None \<and>
   on_message ready ws (Decoded \<lparr>mtype = Str ''joinRoom'', mroomId = Some [], rest = fs\<rparr>) d =
     Inr (d, broadcastToRoom ready ws
               \<lparr>mtype = Str ''joinRoom'', mroomId = Some [], rest = fs\<rparr> d) \<and>
   (clientToRoom d ws = None \<longrightarrow>
      broadcastToRoom ready ws \<lparr>mtype = Str ''joinRoom'', mroomId = Some [], rest = fs\<rparr> d =
        [(ws, ErrorEnvelope ''You must join a room before sending messages.'')]) \<and>
   (reachable d \<longrightarrow>
      (\<forall>roomId. clientToRoom d ws = Some roomId \<longrightarrow>
         set (broadcastToRoom ready ws
                \<lparr>mtype = Str ''joinRoom'', mroomId = Some [], rest = fs\<rparr> d) =
           (\<lambda>clientWs. (clientWs,
                Forwarded \<lparr>mtype = Str ''joinRoom'', mroomId = Some [], rest = fs\<rparr>)) `
             {clientWs \<in> members d roomId. clientWs \<noteq> ws \<and> ready clientWs = OPEN})) \<and>
   (reachable d \<longrightarrow> rooms d [] = None \<and> (\<forall>c. clientToRoom d c \<noteq> Some []))"
proof -
  let ?m = "\<lparr>mtype = Str ''joinRoom'', mroomId = Some [], rest = fs\<rparr>"
  have j: "join_request ?m = None" by (simp add: join_request_def truthy_def)
  then have h: "on_message ready ws (Decoded ?m) d = Inr (d, broadcastToRoom ready ws ?m d)"
    by (simp add: on_message_def)
  have u: "clientToRoom d ws = None \<longrightarrow>
      broadcastToRoom ready ws ?m d =
        [(ws, ErrorEnvelope ''You must join a room before sending messages.'')]"
    by (simp add: broadcastToRoom_def must_join_def)
  have a: "reachable d \<longrightarrow>
      (\<forall>roomId. clientToRoom d ws = Some roomId \<longrightarrow>
         set (broadcastToRoom ready ws ?m d) =
           (\<lambda>clientWs. (clientWs, Forwarded ?m)) `
             {clientWs \<in> members d roomId. clientWs \<noteq> ws \<and> ready clientWs = OPEN})"
  proof (intro impI allI)
    fix roomId
    assume r: "reachable d" and c: "clientToRoom d ws = Some roomId"
    from broadcast_assigned[OF r c, of ready ?m] obtain room where
      room: "rooms d roomId = Some room" and
      b: "broadcastToRoom ready ws ?m d =
            map (\<lambda>clientWs. (clientWs, Forwarded ?m))
              (filter (\<lambda>clientWs. clientWs \<noteq> ws \<and> ready clientWs = OPEN) room)"
      by blast
    have m: "members d roomId = set room" using room by (simp add: members_def)
    show "set (broadcastToRoom ready ws ?m d) =
           (\<lambda>clientWs. (clientWs, Forwarded ?m)) `
             {clientWs \<in> members d roomId. clientWs \<noteq> ws \<and> ready clientWs = OPEN}"
      unfolding b m by auto
  qed
  have e: "reachable d \<longrightarrow> rooms d [] = None \<and> (\<forall>c. clientToRoom d c \<noteq> Some [])"
    using reachable_truthy_rooms[of d] by (auto simp: truthy_rooms_def)
  from j h u a e show ?thesis by blast
qed

theorem empty_room_id_not_a_join_witness:
  "reachable (handleJoinRoom 2 ''r1'' (handleJoinRoom 1 ''r1'' init)) \<and>
   on_message (\<lambda>_. OPEN) 1
     (Decoded \<lparr>mtype = Str ''joinRoom'', mroomId = Some [], rest = []\<rparr>)
     (handleJoinRoom 2 ''r1'' (handleJoinRoom 1 ''r1'' init)) =
     Inr (handleJoinRoom 2 ''r1'' (handleJoinRoom 1 ''r1'' init),
          [(2, Forwarded \<lparr>mtype = Str ''joinRoom'', mroomId = Some [], rest = []\<rparr>)]) \<and>
   rooms (handleJoinRoom 2 ''r1'' (handleJoinRoom 1 ''r1'' init)) [] = None \<and>
   on_message (\<lambda>_. OPEN) 1
     (Decoded \<lparr>mtype = Str ''joinRoom'', mroomId = Some [], rest = []\<rparr>) init =
     Inr (init, [(1, ErrorEnvelope ''You must join a room before sending messages.'')])"
proof -
  let ?d = "handleJoinRoom 2 ''r1'' (handleJoinRoom 1 ''r1'' init)"
  let ?m = "\<lparr>mtype = Str ''joinRoom'', mroomId = Some [], rest = []\<rparr>"
  note r = reachable_two_in_r1
  from empty_room_id_not_a_join[of "[]" "\<lambda>_. OPEN" 1 ?d]
  have h: "on_message (\<lambda>_. OPEN) 1 (Decoded ?m) ?d =
             Inr (?d, broadcastToRoom (\<lambda>_. OPEN) 1 ?m ?d)"
    and e: "reachable ?d \<longrightarrow> rooms ?d [] = None"
    by blast+
  have c0: "clientToRoom init 1 = None" by (simp add: init_def)
  from empty_room_id_not_a_join[of "[]" "\<lambda>_. OPEN" 1 init] c0
  have h0: "on_message (\<lambda>_. OPEN) 1 (Decoded ?m) init =
             Inr (init, [(1, ErrorEnvelope ''You must join a room before sending messages.'')])"
    by simp
  have b: "broadcastToRoom (\<lambda>_. OPEN) 1 ?m ?d = [(2, Forwarded ?m)]"
    by (rule broadcast_two_in_r1)
  from e r have e': "rooms ?d [] = None" by blast
  from r h[unfolded b] e' h0 show ?thesis by (intro conjI)
qed

section \<open>What the routers do with the type of a message\<close>

text \<open>
  The JSON text \<^verbatim>\<open>null\<close> parses, and both message handlers then throw while
  reading its \<^verbatim>\<open>type\<close>: nothing is sent. The statements below are about the other
  decoded values.
\<close>

lemma null_payload_throws:
  "on_message ready ws JsonNull d = Inl TypeError \<and>
   peers_on_message ready ws JsonNull peers = Inl TypeError"
  by (simp add: on_message_def peers_on_message_def)

text \<open>
  C5, as the code has it. For a decoded payload whose \<^verbatim>\<open>type\<close> is absent or not a
  string: the peer server sends the sender one error envelope, "Missing or invalid
  'type' field", sends nothing else and keeps its peer set. The room server has no
  such check: it joins nothing, leaves the directory as it was, and its sends are
  those of \<^verbatim>\<open>broadcastToRoom\<close> for that payload. A sender without a room gets the
  join-before-send error envelope and nothing else is sent; for a sender with a
  room, in a reachable state, the payload is forwarded to the other open members
  of the room and the sender gets nothing.
\<close>

theorem missing_type_handling:
  assumes "\<forall>t. mtype message \<noteq> Str t"
  shows "peers_on_message ready ws (Decoded message) peers =
           Inr (peers, [(ws, ErrorEnvelope ''Missing or invalid 'type' field'')]) \<and>
         join_request message = None \<and>
         on_message ready ws (Decoded message) d =
           Inr (d, broadcastToRoom ready ws message d) \<and>
         (clientToRoom d ws = None \<longrightarrow>
            broadcastToRoom ready ws message d =
              [(ws, ErrorEnvelope ''You must join a room before sending messages.'')]) \<and>
         (reachable d \<longrightarrow>
            (\<forall>roomId. clientToRoom d ws = Some roomId \<longrightarrow>
               set (broadcastToRoom ready ws message d) =
                 (\<lambda>clientWs. (clientWs, Forwarded message)) `
                   {clientWs \<in> members d roomId. clientWs \<noteq> ws \<and> ready clientWs = OPEN}))"
proof -
  from assms have j: "join_request message = None"
    by (simp add: join_request_def)
  then have h: "on_message ready ws (Decoded message) d =
                  Inr (d, broadcastToRoom ready ws message d)"
    by (simp add: on_message_def)
  from assms have p:
    "peers_on_message ready ws (Decoded message) peers =
       Inr (peers, [(ws, ErrorEnvelope ''Missing or invalid 'type' field'')])"
    by (cases "mtype message") (simp_all add: peers_on_message_def)
  from p j h broadcast_unassigned[of d ws ready message]
    broadcast_assigned_set[of d ws _ ready message]
  show ?thesis by blast
qed

theorem missing_type_handling_witness:
  "peers_on_message (\<lambda>_. OPEN) 1
     (Decoded \<lparr>mtype = NonString, mroomId = None, rest = [(''sdp'', ''abc'')]\<rparr>) [1, 2] =
     Inr ([1, 2], [(1, ErrorEnvelope ''Missing or invalid 'type' field'')]) \<and>
   clientToRoom init 1 = None \<and>
   on_message (\<lambda>_. OPEN) 1
     (Decoded \<lparr>mtype = NonString, mroomId = None, rest = [(''sdp'', ''abc'')]\<rparr>) init =
     Inr (init, [(1, ErrorEnvelope ''You must join a room before sending messages.'')]) \<and>
   reachable (handleJoinRoom 2 ''r1'' (handleJoinRoom 1 ''r1'' init)) \<and>
   clientToRoom (handleJoinRoom 2 ''r1'' (handleJoinRoom 1 ''r1'' init)) 1 = Some ''r1'' \<and>
   set (broadcastToRoom (\<lambda>_. OPEN) 1
          \<lparr>mtype = NonString, mroomId = None, rest = [(''sdp'', ''abc'')]\<rparr>
          (handleJoinRoom 2 ''r1'' (handleJoinRoom 1 ''r1'' init))) =
     {(2, Forwarded \<lparr>mtype = NonString, mroomId = None, rest = [(''sdp'', ''abc'')]\<rparr>)}"
proof -
  let ?m = "\<lparr>mtype = NonString, mroomId = None, rest = [(''sdp'', ''abc'')]\<rparr>"
  let ?d = "handleJoinRoom 2 ''r1'' (handleJoinRoom 1 ''r1'' init)"
  have h: "\<forall>t. mtype ?m \<noteq> Str t" by simp
  have c0: "clientToRoom init 1 = None" by (simp add: init_def)
  note r = reachable_two_in_r1 and c = clientToRoom_two_in_r1
  from missing_type_handling[OF h, of "\<lambda>_. OPEN" 1 "[1, 2]" init] c0
  have p: "peers_on_message (\<lambda>_. OPEN) 1 (Decoded ?m) [1, 2] =
             Inr ([1, 2], [(1, ErrorEnvelope ''Missing or invalid 'type' field'')])"
    and u: "on_message (\<lambda>_. OPEN) 1 (Decoded ?m) init =
             Inr (init, [(1, ErrorEnvelope ''You must join a room before sending messages.'')])"
    by simp_all
  from missing_type_handling[OF h, of "\<lambda>_. OPEN" 1 "[]" ?d] r c
  have "set (broadcastToRoom (\<lambda>_. OPEN) 1 ?m ?d) =
          (\<lambda>clientWs. (clientWs, Forwarded ?m)) `
            {clientWs \<in> members ?d ''r1''. clientWs \<noteq> 1 \<and> (\<lambda>_. OPEN) clientWs = OPEN}"
    by blast
  then have a: "set (broadcastToRoom (\<lambda>_. OPEN) 1 ?m ?d) = {(2, Forwarded ?m)}"
    unfolding others_two_in_r1 by simp
  from p c0 u r c a show ?thesis by (intro conjI)
qed

text \<open>
  The claim as stated fails in the room server: socket 1, a member of room
  \<^verbatim>\<open>r1\<close> with socket 2, sends a payload without a \<^verbatim>\<open>type\<close>; the payload is
  forwarded to socket 2 and socket 1 gets no error envelope.
\<close>

theorem missing_type_counterexample:
  "reachable (handleJoinRoom 2 ''r1'' (handleJoinRoom 1 ''r1'' init)) \<and>
   on_message (\<lambda>_. OPEN) 1
     (Decoded \<lparr>mtype = Missing, mroomId = None, rest = [(''sdp'', ''abc'')]\<rparr>)
     (handleJoinRoom 2 ''r1'' (handleJoinRoom 1 ''r1'' init)) =
     Inr (handleJoinRoom 2 ''r1'' (handleJoinRoom 1 ''r1'' init),
          [(2, Forwarded \<lparr>mtype = Missing, mroomId = None, rest = [(''sdp'', ''abc'')]\<rparr>)])"
proof -
  let ?d = "handleJoinRoom 2 ''r1'' (handleJoinRoom 1 ''r1'' init)"
  let ?m = "\<lparr>mtype = Missing, mroomId = None, rest = [(''sdp'', ''abc'')]\<rparr>"
  have j: "join_request ?m = None" by (simp add: join_request_def)
  have b: "broadcastToRoom (\<lambda>_. OPEN) 1 ?m ?d = [(2, Forwarded ?m)]"
    by (rule broadcast_two_in_r1)
  have "on_message (\<lambda>_. OPEN) 1 (Decoded ?m) ?d = Inr (?d, [(2, Forwarded ?m)])"
    unfolding on_message_def payload.case j option.case b ..
  with reachable_two_in_r1 show ?thesis by (intro conjI)
qed

text \<open>
  C6, as the code has it. For a decoded payload whose \<^verbatim>\<open>type\<close> is a string other
  than \<^verbatim>\<open>joinRoom\<close>, \<^verbatim>\<open>createOffer\<close>, \<^verbatim>\<open>createAnswer\<close> and \<^verbatim>\<open>iceCandidate\<close>: the
  peer server sends the sender one error envelope naming the type, sends nothing
  else and keeps its peer set. The room server does not look at the type beyond the
  join test: it joins nothing, leaves the directory as it was, and its sends are
  those of \<^verbatim>\<open>broadcastToRoom\<close>. A sender without a room gets the join-before-send
  error envelope and nothing else is sent; for a sender with a room, in a reachable
  state, the message is forwarded to the other open members of the room and the
  sender gets nothing.
\<close>

theorem unknown_type_handling:
  assumes "mtype message = Str t"
    and "t \<noteq> ''joinRoom''" and "t \<noteq> ''createOffer''"
    and "t \<noteq> ''createAnswer''" and "t \<noteq> ''iceCandidate''"
  shows "peers_on_message ready ws (Decoded message) peers =
           Inr (peers, [(ws, ErrorEnvelope (''Unknown message type: '' @ t))]) \<and>
         join_request message = None \<and>
         on_message ready ws (Decoded message) d =
           Inr (d, broadcastToRoom ready ws message d) \<and>
         (clientToRoom d ws = None \<longrightarrow>
            broadcastToRoom ready ws message d =
              [(ws, ErrorEnvelope ''You must join a room before sending messages.'')]) \<and>
         (reachable d \<longrightarrow>
            (\<forall>roomId. clientToRoom d ws = Some roomId \<longrightarrow>
               set (broadcastToRoom ready ws message d) =
                 (\<lambda>clientWs. (clientWs, Forwarded message)) `
                   {clientWs \<in> members d roomId. clientWs \<noteq> ws \<and> ready clientWs = OPEN}))"
proof -
  from assms(1,2) have j: "join_request message = None"
    by (simp add: join_request_def)
  then have h: "on_message ready ws (Decoded message) d =
                  Inr (d, broadcastToRoom ready ws message d)"
    by (simp add: on_message_def)
  from assms have p:
    "peers_on_message ready ws (Decoded message) peers =
       Inr (peers, [(ws, ErrorEnvelope (''Unknown message type: '' @ t))])"
    by (simp add: peers_on_message_def)
  from p j h broadcast_unassigned[of d ws ready message]
    broadcast_assigned_set[of d ws _ ready message]
  show ?thesis by blast
qed

theorem unknown_type_handling_witness:
  "peers_on_message (\<lambda>_. OPEN) 1
     (Decoded \<lparr>mtype = Str ''chat'', mroomId = None, rest = []\<rparr>) [1, 2] =
     Inr ([1, 2], [(1, ErrorEnvelope ''Unknown message type: chat'')]) \<and>
   clientToRoom init 1 = None \<and>
   on_message (\<lambda>_. OPEN) 1
     (Decoded \<lparr>mtype = Str ''chat'', mroomId = None, rest = []\<rparr>) init =
     Inr (init, [(1, ErrorEnvelope ''You must join a room before sending messages.'')]) \<and>
   reachable (handleJoinRoom 2 ''r1'' (handleJoinRoom 1 ''r1'' init)) \<and>
   clientToRoom (handleJoinRoom 2 ''r1'' (handleJoinRoom 1 ''r1'' init)) 1 = Some ''r1'' \<and>
   set (broadcastToRoom (\<lambda>_. OPEN) 1
          \<lparr>mtype = Str ''chat'', mroomId = None, rest = []\<rparr>
          (handleJoinRoom 2 ''r1'' (handleJoinRoom 1 ''r1'' init))) =
     {(2, Forwarded \<lparr>mtype = Str ''chat'', mroomId = None, rest = []\<rparr>)}"
proof -
  let ?m = "\<lparr>mtype = Str ''chat'', mroomId = None, rest = []\<rparr>"
  let ?d = "handleJoinRoom 2 ''r1'' (handleJoinRoom 1 ''r1'' init)"
  have t: "mtype ?m = Str ''chat''" by simp
  have c0: "clientToRoom init 1 = None" by (simp add: init_def)
  note r = reachable_two_in_r1 and c = clientToRoom_two_in_r1
  from unknown_type_handling[OF t, of "\<lambda>_. OPEN" 1 "[1, 2]" init] c0
  have p: "peers_on_message (\<lambda>_. OPEN) 1 (Decoded ?m) [1, 2] =
             Inr ([1, 2], [(1, ErrorEnvelope ''Unknown message type: chat'')])"
    and u: "on_message (\<lambda>_. OPEN) 1 (Decoded ?m) init =
             Inr (init, [(1, ErrorEnvelope ''You must join a room before sending messages.'')])"
    by simp_all
  from unknown_type_handling[OF t, of "\<lambda>_. OPEN" 1 "[]" ?d] r c
  have "set (broadcastToRoom (\<lambda>_. OPEN) 1 ?m ?d) =
          (\<lambda>clientWs. (clientWs, Forwarded ?m)) `
            {clientWs \<in> members ?d ''r1''. clientWs \<noteq> 1 \<and> (\<lambda>_. OPEN) clientWs = OPEN}"
    by simp
  then have a: "set (broadcastToRoom (\<lambda>_. OPEN) 1 ?m ?d) = {(2, Forwarded ?m)}"
    unfolding others_two_in_r1 by simp
  from p c0 u r c a show ?thesis by (intro conjI)
qed

text \<open>
  The claim as stated fails in the room server: socket 1, a member of room
  \<^verbatim>\<open>r1\<close> with socket 2, sends a message of type \<^verbatim>\<open>chat\<close>; it is forwarded to
  socket 2 and socket 1 gets no error envelope.
\<close>

theorem unknown_type_counterexample:
  "reachable (handleJoinRoom 2 ''r1'' (handleJoinRoom 1 ''r1'' init)) \<and>
   on_message (\<lambda>_. OPEN) 1
     (Decoded \<lparr>mtype = Str ''chat'', mroomId = None, rest = []\<rparr>)
     (handleJoinRoom 2 ''r1'' (handleJoinRoom 1 ''r1'' init)) =
     Inr (handleJoinRoom 2 ''r1'' (handleJoinRoom 1 ''r1'' init),
          [(2, Forwarded \<lparr>mtype = Str ''chat'', mroomId = None, rest = []\<rparr>)])"
proof -
  let ?d = "handleJoinRoom 2 ''r1'' (handleJoinRoom 1 ''r1'' init)"
  let ?m = "\<lparr>mtype = Str ''chat'', mroomId = None, rest = []\<rparr>"
  have j: "join_request ?m = None" by (simp add: join_request_def)
  have b: "broadcastToRoom (\<lambda>_. OPEN) 1 ?m ?d = [(2, Forwarded ?m)]"
    by (rule broadcast_two_in_r1)
  have "on_message (\<lambda>_. OPEN) 1 (Decoded ?m) ?d = Inr (?d, [(2, Forwarded ?m)])"
    unfolding on_message_def payload.case j option.case b ..
  with reachable_two_in_r1 show ?thesis by (intro conjI)
qed

text \<open>
  C7, as the code has it. A message of type \<^verbatim>\<open>joinRoom\<close> without a \<^verbatim>\<open>roomId\<close>
  fails the join test of the room server: \<^verbatim>\<open>handleJoinRoom\<close> is not called, the
  directory stays as it was, and the sends are those of \<^verbatim>\<open>broadcastToRoom\<close>. A
  sender without a room gets the join-before-send error envelope and nothing else
  is sent; for a sender with a room, in a reachable state, the envelope is forwarded
  to the other open members of the room and the sender gets nothing.
\<close>

theorem join_without_room_id:
  assumes "mtype message = Str ''joinRoom''" and "mroomId message = None"
  shows "join_request message = None \<and>
         on_message ready ws (Decoded message) d =
           Inr (d, broadcastToRoom ready ws message d) \<and>
         (clientToRoom d ws = None \<longrightarrow>
            broadcastToRoom ready ws message d =
              [(ws, ErrorEnvelope ''You must join a room before sending messages.'')]) \<and>
         (reachable d \<longrightarrow>
            (\<forall>roomId. clientToRoom d ws = Some roomId \<longrightarrow>
               set (broadcastToRoom ready ws message d) =
                 (\<lambda>clientWs. (clientWs, Forwarded message)) `
                   {clientWs \<in> members d roomId. clientWs \<noteq> ws \<and> ready clientWs = OPEN}))"
proof -
  from assms have j: "join_request message = None"
    by (simp add: join_request_def)
  then have h: "on_message ready ws (Decoded message) d =
                  Inr (d, broadcastToRoom ready ws message d)"
    by (simp add: on_message_def)
  have u: "clientToRoom d ws = None \<longrightarrow>
      broadcastToRoom ready ws message d =
        [(ws, ErrorEnvelope ''You must join a room before sending messages.'')]"
    by (simp add: broadcastToRoom_def must_join_def)
  have a: "reachable d \<longrightarrow>
      (\<forall>roomId. clientToRoom d ws = Some roomId \<longrightarrow>
         set (broadcastToRoom ready ws message d) =
           (\<lambda>clientWs. (clientWs, Forwarded message)) `
             {clientWs \<in> members d roomId. clientWs \<noteq> ws \<and> ready clientWs = OPEN})"
  proof (intro impI allI)
    fix roomId
    assume r: "reachable d" and c: "clientToRoom d ws = Some roomId"
    from broadcast_assigned[OF r c, of ready message] obtain room where
      room: "rooms d roomId = Some room" and
      b: "broadcastToRoom ready ws message d =
            map (\<lambda>clientWs. (clientWs, Forwarded message))
              (filter (\<lambda>clientWs. clientWs \<noteq> ws \<and> ready clientWs = OPEN) room)"
      by blast
    have m: "members d roomId = set room" using room by (simp add: members_def)
    show "set (broadcastToRoom ready ws message d) =
           (\<lambda>clientWs. (clientWs, Forwarded message)) `
             {clientWs \<in> members d roomId. clientWs \<noteq> ws \<and> ready clientWs = OPEN}"
      unfolding b m by auto
  qed
  from j h u a show ?thesis by blast
qed

theorem join_without_room_id_witness:
  "mtype \<lparr>mtype = Str ''joinRoom'', mroomId = None, rest = []\<rparr> = Str ''joinRoom'' \<and>
   mroomId \<lparr>mtype = Str ''joinRoom'', mroomId = None, rest = []\<rparr> = None \<and>
   on_message (\<lambda>_. OPEN) 1
     (Decoded \<lparr>mtype = Str ''joinRoom'', mroomId = None, rest = []\<rparr>) init =
     Inr (init, [(1, ErrorEnvelope ''You must join a room before sending messages.'')])"
proof -
  let ?m = "\<lparr>mtype = Str ''joinRoom'', mroomId = None, rest = []\<rparr>"
  have t: "mtype ?m = Str ''joinRoom''" and i: "mroomId ?m = None" by simp_all
  have c0: "clientToRoom init 1 = None" by (simp add: init_def)
  from join_without_room_id[OF t i, of "\<lambda>_. OPEN" 1 init] c0
  have "on_message (\<lambda>_. OPEN) 1 (Decoded ?m) init =
          Inr (init, [(1, ErrorEnvelope ''You must join a room before sending messages.'')])"
    by simp
  with t i show ?thesis by (intro conjI)
qed

text \<open>
  The claim as stated fails for a sender with a room: socket 1, a member of room
  \<^verbatim>\<open>r1\<close> with socket 2, sends \<^verbatim>\<open>joinRoom\<close> without a room id; the envelope is
  forwarded to socket 2 and socket 1 gets no error envelope.
\<close>

theorem join_without_room_id_counterexample:
  "reachable (handleJoinRoom 2 ''r1'' (handleJoinRoom 1 ''r1'' init)) \<and>
   on_message (\<lambda>_. OPEN) 1
     (Decoded \<lparr>mtype = Str ''joinRoom'', mroomId = None, rest = []\<rparr>)
     (handleJoinRoom 2 ''r1'' (handleJoinRoom 1 ''r1'' init)) =
     Inr (handleJoinRoom 2 ''r1'' (handleJoinRoom 1 ''r1'' init),
          [(2, Forwarded \<lparr>mtype = Str ''joinRoom'', mroomId = None, rest = []\<rparr>)])"
proof -
  let ?d = "handleJoinRoom 2 ''r1'' (handleJoinRoom 1 ''r1'' init)"
  let ?m = "\<lparr>mtype = Str ''joinRoom'', mroomId = None, rest = []\<rparr>"
  have j: "join_request ?m = None" by (simp add: join_request_def)
  have b: "broadcastToRoom (\<lambda>_. OPEN) 1 ?m ?d = [(2, Forwarded ?m)]"
    by (rule broadcast_two_in_r1)
  have "on_message (\<lambda>_. OPEN) 1 (Decoded ?m) ?d = Inr (?d, [(2, Forwarded ?m)])"
    unfolding on_message_def payload.case j option.case b ..
  with reachable_two_in_r1 show ?thesis by (intro conjI)
qed

end
